theory Spec2Isabelle
  imports Complex_Main "HOL-Library.Sublist"
begin

section \<open>The Gametime listing watcher (src/platforms/gametime.ts)\<close>

text \<open>
  The module keeps its run state in module-level variables and exposes two functions,
  \<open>check\<close> (one polling tick) and \<open>getStatusMessage\<close>. The embedding passes the
  variables around as a record, returns what a tick logs and sends as a list of events,
  and returns a rejected promise as an error value.

  JavaScript numbers (\<open>z.number()\<close>) are modelled as exact rationals: the rounding of
  IEEE doubles, \<open>NaN\<close> and the infinities are outside the model. Strings are byte
  strings; the two emoji of the status message are written as their UTF-8 bytes.
\<close>

subsection \<open>Configuration constants (lines 11-24)\<close>

text \<open>
  A regular expression literal of the configuration. All five literals of the source have
  the form \<open>/^p/\<close> with \<open>p\<close> free of metacharacters and no flags, so \<open>test\<close> is a prefix
  test and \<open>toString\<close> gives the literal back.
\<close>

datatype regex = StartsWith string

fun regex_test :: "regex \<Rightarrow> string \<Rightarrow> bool" where
  "regex_test (StartsWith p) s = prefix p s"

fun regex_toString :: "regex \<Rightarrow> string" where
  "regex_toString (StartsWith p) = ''/^'' @ p @ ''/''"

definition PLATFORM_NAME :: string where
  "PLATFORM_NAME = ''Gametime''"

definition EVENT_NAME :: string where
  "EVENT_NAME = ''Lakers vs. Suns''"

definition SEATS_TOGETHER :: nat where
  "SEATS_TOGETHER = 2"

definition MAX_ALL_IN_PRICE_PER_SEAT :: rat where
  "MAX_ALL_IN_PRICE_PER_SEAT = 350"

definition SECTIONS_REGEX :: "regex list" where
  "SECTIONS_REGEX = [StartsWith ''PR'', StartsWith ''1'']"

definition SECTION_GROUP_NAMES :: "regex list" where
  "SECTION_GROUP_NAMES = [StartsWith ''Premier'', StartsWith ''Loge'', StartsWith ''Baseline'']"

definition MAX_RETURN_LIST :: nat where
  "MAX_RETURN_LIST = 10"

definition MIN_ERROR_COUNT :: nat where
  "MIN_ERROR_COUNT = 4"

definition TEXT_MAX_FREQUENCY_MINS :: int where
  "TEXT_MAX_FREQUENCY_MINS = 15"

subsection \<open>Listings (lines 32-57)\<close>

text \<open>
  The fields \<open>total\<close>, \<open>id\<close> and \<open>section\<close> of the schema are named \<open>total_amount\<close>,
  \<open>listing_id\<close> and \<open>section_code\<close> here.
\<close>

record price_obj =
  face_value :: "rat option"
  prefee :: rat
  total_amount :: rat
  sales_tax :: rat

record listing =
  price :: price_obj
  lots :: "rat list"
  seats :: "string list"
  listing_id :: string
  row :: string
  section_code :: string
  section_group :: string

text \<open>
  What \<open>fetch(fullUrl).then((res) => res.json())\<close> and \<open>outputSchema.safeParse\<close> make of
  a tick. The fetch either rejects or yields a document; the document either fails the
  schema or validates to its listings, in the order \<open>Object.values\<close> enumerates them.
  \<open>Raises\<close> stands for an exception thrown inside the \<open>try\<close> block of lines 94-131: the
  handler of lines 132-141 is part of \<open>check\<close> and is modelled, although neither
  \<open>safeParse\<close> nor the filter, sort and slice calls throw on data that came from JSON.
\<close>

datatype document = Malformed | Raises | WellFormed "listing list"

datatype response = FetchFailed | Fetched document

subsection \<open>Total price and formatting (lines 69-80)\<close>

definition calculateTotalPrice :: "listing \<Rightarrow> rat" where
  "calculateTotalPrice l =
     (let allIn = prefee (price l) + total_amount (price l) + sales_tax (price l)
      in allIn / 100)"

text \<open>
  \<open>toLocaleString('en-US', {style: 'currency', currency: 'USD', maximumFractionDigits: 0})\<close>:
  the magnitude rounded to the nearest integer, ties away from zero, digits grouped in
  threes by commas, after a dollar sign and, for a negative number, a minus sign.
\<close>

function digits :: "nat \<Rightarrow> string" where
  "digits n = (if n < 10 then [char_of (48 + n)] else digits (n div 10) @ [char_of (48 + n mod 10)])"
  by pat_completeness auto
termination
  by (relation "measure id") auto

declare digits.simps [simp del]

fun group3 :: "string \<Rightarrow> string" where
  "group3 (a # b # c # d # rest) = a # b # c # CHR '','' # group3 (d # rest)"
| "group3 ds = ds"

definition fmtPrice :: "rat \<Rightarrow> string" where
  "fmtPrice p =
     (if p < 0 then ''-'' else '''') @ ''$'' @ rev (group3 (rev (digits (nat \<lfloor>\<bar>p\<bar> + 1 / 2\<rfloor>))))"

subsection \<open>Filter and ranking (lines 105-131)\<close>

text \<open>The callback of \<open>filter\<close>, lines 106-125, with its four early returns in order.\<close>

definition qualifies :: "listing \<Rightarrow> bool" where
  "qualifies l =
     (if length (seats l) < SEATS_TOGETHER then False
      else if of_nat SEATS_TOGETHER \<notin> set (lots l) then False
      else if \<not> list_ex (\<lambda>r. regex_test r (section_code l)) SECTIONS_REGEX \<and>
              \<not> list_ex (\<lambda>r. regex_test r (section_group l)) SECTION_GROUP_NAMES then False
      else if calculateTotalPrice l > MAX_ALL_IN_PRICE_PER_SEAT then False
      else True)"

text \<open>The comparator of \<open>sort\<close>, lines 126-130.\<close>

definition compare_price :: "listing \<Rightarrow> listing \<Rightarrow> rat" where
  "compare_price a b =
     (let aPrice = calculateTotalPrice a; bPrice = calculateTotalPrice b in aPrice - bPrice)"

text \<open>
  \<open>Array.prototype.sort\<close> with a comparator: ECMAScript requires the sort to be stable,
  and leaves the algorithm open. The model is insertion sort, which puts an element
  before the first later element that the comparator does not rank below it.
\<close>

fun insert_by :: "('a \<Rightarrow> 'a \<Rightarrow> rat) \<Rightarrow> 'a \<Rightarrow> 'a list \<Rightarrow> 'a list" where
  "insert_by cmp x [] = [x]"
| "insert_by cmp x (y # ys) = (if cmp x y \<le> 0 then x # y # ys else y # insert_by cmp x ys)"

fun sort_by :: "('a \<Rightarrow> 'a \<Rightarrow> rat) \<Rightarrow> 'a list \<Rightarrow> 'a list" where
  "sort_by cmp [] = []"
| "sort_by cmp (x # xs) = insert_by cmp x (sort_by cmp xs)"

text \<open>The value assigned to \<open>AVAILABLE_SEATS\<close> at line 105; \<open>slice(0, n)\<close> is \<open>take n\<close>.\<close>

definition filter_stage :: "listing list \<Rightarrow> listing list" where
  "filter_stage ls = filter qualifies ls"

definition available_seats :: "listing list \<Rightarrow> listing list" where
  "available_seats ls = take MAX_RETURN_LIST (sort_by compare_price (filter_stage ls))"

subsection \<open>Run state (lines 30, 59-67)\<close>

record state =
  pricesSeen :: "rat list"
  AVAILABLE_SEATS :: "listing list"
  LAST_TEXT_SENT_AT :: int
  ERROR_COUNT :: nat
  ERROR :: bool
  STATUS_MESSAGE :: string

definition initial_state :: state where
  "initial_state =
     \<lparr>pricesSeen = [], AVAILABLE_SEATS = [], LAST_TEXT_SENT_AT = 0, ERROR_COUNT = 0,
      ERROR = False, STATUS_MESSAGE = ''NO_SEATS''\<rparr>"

definition getStatusMessage :: "state \<Rightarrow> string" where
  "getStatusMessage s = (if ERROR s then ''ERROR'' else STATUS_MESSAGE s)"

subsection \<open>The text of the status message (lines 150-163, 176-178, 197-199)\<close>

definition newline :: string where
  "newline = [CHR 0x0A]"

definition basketball :: string where
  "basketball = [CHR 0xF0, CHR 0x9F, CHR 0x8F, CHR 0x80]"

definition star :: string where
  "star = [CHR 0xE2, CHR 0xAD, CHR 0x90]"

fun join :: "string \<Rightarrow> string list \<Rightarrow> string" where
  "join sep [] = []"
| "join sep [x] = x"
| "join sep (x # y # ys) = x @ sep @ join sep (y # ys)"

definition readout_line :: "listing \<Rightarrow> string" where
  "readout_line l =
     (let allInEach = calculateTotalPrice l;
          total = allInEach * of_nat SEATS_TOGETHER;
          formattedEach = fmtPrice allInEach;
          formattedTotal = fmtPrice total
      in ''- Sec '' @ section_code l @ '' Row '' @ row l @ '', '' @ formattedEach @
         '' each ('' @ formattedTotal @ '' total)'')"

definition header :: string where
  "header =
     basketball @ '' Seats available for '' @ EVENT_NAME @ ''!'' @ newline @
     ''(checking '' @ PLATFORM_NAME @ '' for '' @ digits SEATS_TOGETHER @
     '' seats together at '' @ fmtPrice MAX_ALL_IN_PRICE_PER_SEAT @
     '' each in sections similar to '' @ join '', '' (map regex_toString SECTION_GROUP_NAMES) @ '')''"

definition callout :: "rat \<Rightarrow> string" where
  "callout lowestPrice =
     newline @ newline @ star @ '' New lowest price on '' @ PLATFORM_NAME @ '': '' @
     fmtPrice lowestPrice @ newline"

subsection \<open>One tick (lines 87-214)\<close>

text \<open>
  What a tick writes to the console or hands to \<open>sendPushAlert\<close>, in order. The three
  trend lines carry the formatted price they print, the alert carries its message.
\<close>

datatype event =
    ParseErrorLogged
  | ExceptionLogged
  | NoSeatsLogged
  | PriceDecreased string
  | PriceIncreased string
  | PriceUnchanged string
  | TextThrottled
  | PushAlert string

datatype error = TransportError

text \<open>
  Lines 197-214: the listing lines are appended to the message, then the throttle decides.
  \<open>now1\<close> and \<open>now2\<close> are the readings of the two \<open>Date.now()\<close> calls, in milliseconds.
  The module behind \<open>sendPushAlert\<close> is not part of the sources; its call is the event
  \<open>PushAlert\<close>, and a failure of the call is outside the model.
\<close>

definition notify_gate ::
  "event list \<Rightarrow> string list \<Rightarrow> int \<Rightarrow> int \<Rightarrow> state \<Rightarrow> (error + event list) \<times> state" where
  "notify_gate evs readout now1 now2 s =
     (let s = s\<lparr>STATUS_MESSAGE := foldl (\<lambda>msg line. msg @ newline @ line) (STATUS_MESSAGE s) readout\<rparr>
      in if now1 - LAST_TEXT_SENT_AT s < TEXT_MAX_FREQUENCY_MINS * 60 * 1000
         then (Inr (evs @ [TextThrottled]), s)
         else let s = s\<lparr>LAST_TEXT_SENT_AT := now2\<rparr>
              in (Inr (evs @ [PushAlert (STATUS_MESSAGE s)]), s))"

text \<open>\<open>Math.min(...pricesSeen)\<close>, called on a non-empty array only.\<close>

fun math_min :: "rat list \<Rightarrow> rat" where
  "math_min (x # xs) = fold min xs x"

text \<open>Lines 143-195: what follows the \<open>try\<close> statement, up to the trend branches.\<close>

definition after_try ::
  "event list \<Rightarrow> int \<Rightarrow> int \<Rightarrow> state \<Rightarrow> (error + event list) \<times> state" where
  "after_try evs now1 now2 s =
     (let s = s\<lparr>ERROR_COUNT := 0\<rparr>
      in if AVAILABLE_SEATS s = [] then (Inr (evs @ [NoSeatsLogged]), s)
         else
           let readout = map readout_line (AVAILABLE_SEATS s);
               s = s\<lparr>STATUS_MESSAGE := header\<rparr>;
               lowestPrice = calculateTotalPrice (hd (AVAILABLE_SEATS s))
           in if pricesSeen s = []
              then notify_gate evs readout now1 now2 (s\<lparr>pricesSeen := pricesSeen s @ [lowestPrice]\<rparr>)
              else
                let lowestPriceSeen = math_min (pricesSeen s);
                    lastPriceSeen = last (pricesSeen s);
                    s = s\<lparr>pricesSeen := pricesSeen s @ [lowestPrice]\<rparr>
                in if lowestPrice < lowestPriceSeen
                   then notify_gate evs readout now1 now2
                          (s\<lparr>STATUS_MESSAGE := STATUS_MESSAGE s @ callout lowestPrice\<rparr>)
                   else if lowestPrice < lastPriceSeen
                   then (Inr (evs @ [PriceDecreased (fmtPrice lowestPrice)]), s)
                   else if lowestPrice > lastPriceSeen
                   then (Inr (evs @ [PriceIncreased (fmtPrice lowestPrice)]), s)
                   else (Inr (evs @ [PriceUnchanged (fmtPrice lowestPrice)]), s))"

text \<open>
  \<open>check\<close>. The three resets of lines 88-90 come first; the fetch of line 92 is awaited
  outside the \<open>try\<close> statement, so its rejection rejects the promise of \<open>check\<close> with the
  resets done. A document that fails the schema returns at line 100. An exception inside
  the \<open>try\<close> block is counted at line 135; below the threshold the handler ends without
  returning and control continues at line 143.
\<close>

definition check :: "response \<Rightarrow> int \<Rightarrow> int \<Rightarrow> state \<Rightarrow> (error + event list) \<times> state" where
  "check resp now1 now2 s =
     (let s = s\<lparr>AVAILABLE_SEATS := [], STATUS_MESSAGE := ''NO_SEATS'', ERROR := False\<rparr>
      in case resp of
           FetchFailed \<Rightarrow> (Inl TransportError, s)
         | Fetched Malformed \<Rightarrow> (Inr [ParseErrorLogged], s)
         | Fetched Raises \<Rightarrow>
             (let s = s\<lparr>ERROR_COUNT := ERROR_COUNT s + 1\<rparr>
              in if ERROR_COUNT s \<ge> MIN_ERROR_COUNT
                 then (Inr [ExceptionLogged], s\<lparr>ERROR := True\<rparr>)
                 else after_try [ExceptionLogged] now1 now2 s)
         | Fetched (WellFormed ls) \<Rightarrow>
             after_try [] now1 now2 (s\<lparr>AVAILABLE_SEATS := available_seats ls\<rparr>))"

subsection \<open>Trend of a tick and runs of ticks\<close>

text \<open>
  The branch of lines 167-194 a tick with qualifying listings takes, named after what the
  branch prints. The branch for an empty history and the branch for a price below every
  recorded one both go on to the throttle of line 202 and are \<open>NEW_LOW\<close>; the other
  three return.
\<close>

datatype trend = NEW_LOW | DECREASED | INCREASED | UNCHANGED

definition classify :: "rat list \<Rightarrow> rat \<Rightarrow> trend" where
  "classify seen lowestPrice =
     (if seen = [] then NEW_LOW
      else if lowestPrice < math_min seen then NEW_LOW
      else if lowestPrice < last seen then DECREASED
      else if lowestPrice > last seen then INCREASED
      else UNCHANGED)"

text \<open>Line 165: the price of the first listing of a non-empty \<open>AVAILABLE_SEATS\<close>.\<close>

definition lowest_price :: "listing list \<Rightarrow> rat" where
  "lowest_price avail = calculateTotalPrice (hd avail)"

text \<open>Whether a tick got as far as the throttle of line 202.\<close>

fun reached_gate :: "error + event list \<Rightarrow> bool" where
  "reached_gate (Inr [TextThrottled]) = True"
| "reached_gate (Inr [PushAlert message]) = True"
| "reached_gate r = False"

text \<open>
  A run: \<open>check\<close> called once per tick on the module's variables. The variables keep what a
  rejected tick wrote to them.
\<close>

record tick =
  fetched :: response
  clock1 :: int
  clock2 :: int

definition step :: "tick \<Rightarrow> state \<Rightarrow> state" where
  "step t s = snd (check (fetched t) (clock1 t) (clock2 t) s)"

fun run :: "tick list \<Rightarrow> state \<Rightarrow> state" where
  "run [] s = s"
| "run (t # ts) s = run ts (step t s)"

text \<open>Whether a tick has at least one qualifying listing.\<close>

fun has_qualifying :: "response \<Rightarrow> bool" where
  "has_qualifying (Fetched (WellFormed ls)) = (filter_stage ls \<noteq> [])"
| "has_qualifying r = False"

subsection \<open>Sample data\<close>

text \<open>
  Six listings for two seats: \<open>listing_a\<close> and \<open>listing_e\<close> at 250 each in sections
  PR12 and PR3, \<open>listing_c\<close> at 190 in section 101, \<open>listing_f\<close> at 150 in section 112,
  \<open>listing_b\<close> in an upper section outside the configured patterns, and \<open>listing_d\<close> at
  360, above the price cap.
\<close>

definition listing_a :: listing where
  "listing_a =
     \<lparr>price = \<lparr>face_value = None, prefee = 20000, total_amount = 5000, sales_tax = 0\<rparr>,
      lots = [2], seats = [''*'', ''*''], listing_id = ''a'', row = ''4'',
      section_code = ''PR12'', section_group = ''Premier''\<rparr>"

definition listing_b :: listing where
  "listing_b =
     \<lparr>price = \<lparr>face_value = Some 9000, prefee = 10000, total_amount = 2000, sales_tax = 500\<rparr>,
      lots = [1, 2], seats = [''*'', ''*'', ''*''], listing_id = ''b'', row = ''12'',
      section_code = ''305'', section_group = ''Upper''\<rparr>"

definition listing_c :: listing where
  "listing_c =
     \<lparr>price = \<lparr>face_value = None, prefee = 15000, total_amount = 3000, sales_tax = 1000\<rparr>,
      lots = [2, 4], seats = [''*'', ''*'', ''*'', ''*''], listing_id = ''c'', row = ''9'',
      section_code = ''101'', section_group = ''Loge''\<rparr>"

definition listing_d :: listing where
  "listing_d =
     \<lparr>price = \<lparr>face_value = None, prefee = 30000, total_amount = 5000, sales_tax = 1000\<rparr>,
      lots = [2], seats = [''*'', ''*''], listing_id = ''d'', row = ''1'',
      section_code = ''PR1'', section_group = ''Premier''\<rparr>"

definition listing_e :: listing where
  "listing_e =
     \<lparr>price = \<lparr>face_value = None, prefee = 21000, total_amount = 4000, sales_tax = 0\<rparr>,
      lots = [2], seats = [''*'', ''*''], listing_id = ''e'', row = ''7'',
      section_code = ''PR3'', section_group = ''Premier''\<rparr>"

definition listing_f :: listing where
  "listing_f =
     \<lparr>price = \<lparr>face_value = None, prefee = 12000, total_amount = 2500, sales_tax = 500\<rparr>,
      lots = [2], seats = [''*'', ''*''], listing_id = ''f'', row = ''15'',
      section_code = ''112'', section_group = ''Baseline''\<rparr>"

text \<open>A tick whose two clock readings agree, and a tick whose document fails the schema.\<close>

definition tick_of :: "response \<Rightarrow> int \<Rightarrow> tick" where
  "tick_of r t = \<lparr>fetched = r, clock1 = t, clock2 = t\<rparr>"

definition malformed_tick :: tick where
  "malformed_tick = tick_of (Fetched Malformed) 1700000000000"

text \<open>
  Three ticks of one run: \<open>tick_A\<close> offers \<open>listing_a\<close>, \<open>tick_B\<close> fourteen minutes later
  offers \<open>listing_c\<close>, \<open>tick_C\<close> two minutes after that offers \<open>listing_f\<close>.
\<close>

definition tick_A :: tick where
  "tick_A = tick_of (Fetched (WellFormed [listing_a])) 1700000000000"

definition tick_B :: tick where
  "tick_B = tick_of (Fetched (WellFormed [listing_c])) 1700000840000"

definition tick_C :: tick where
  "tick_C = tick_of (Fetched (WellFormed [listing_f])) 1700000960000"

definition state_A :: state where
  "state_A = step tick_A initial_state"

definition state_B :: state where
  "state_B = step tick_B state_A"

section \<open>Properties\<close>

subsection \<open>Auxiliary facts\<close>

lemma math_min_eq_Min:
  assumes "xs \<noteq> []"
  shows "math_min xs = Min (set xs)"
proof (cases xs)
  case Nil
  with assms show ?thesis by simp
next
  case (Cons a list)
  then show ?thesis using Min.set_eq_fold [of a list] by simp
qed

lemma insert_by_compare_price:
  "insert_by compare_price x ys = insort_key calculateTotalPrice x ys"
  by (induction ys) (simp_all add: compare_price_def)

lemma sort_by_compare_price: "sort_by compare_price xs = sort_key calculateTotalPrice xs"
  by (induction xs) (simp_all add: insert_by_compare_price)

lemma sort_key_Nil_iff: "sort_key f xs = [] \<longleftrightarrow> xs = []"
  using length_sort [of f xs] by (metis length_0_conv)

lemma available_seats_Nil_iff: "available_seats ls = [] \<longleftrightarrow> filter_stage ls = []"
  by (simp add: available_seats_def MAX_RETURN_LIST_def sort_by_compare_price sort_key_Nil_iff)

lemma sorted_hd_Min:
  "sorted (map f ys) \<Longrightarrow> ys \<noteq> [] \<Longrightarrow> f (hd ys) = Min (f ` set ys)"
  by (cases ys) (auto intro!: Min_eqI [symmetric])

lemma hd_available_seats:
  assumes "filter_stage ls \<noteq> []"
  shows "calculateTotalPrice (hd (available_seats ls)) =
         Min (calculateTotalPrice ` set (filter_stage ls))"
proof -
  let ?srt = "sort_key calculateTotalPrice (filter_stage ls)"
  have ne: "?srt \<noteq> []" using assms by (simp add: sort_key_Nil_iff)
  have "hd (available_seats ls) = hd ?srt"
    by (simp add: available_seats_def MAX_RETURN_LIST_def sort_by_compare_price)
  moreover have "calculateTotalPrice (hd ?srt) = Min (calculateTotalPrice ` set ?srt)"
    using ne by (intro sorted_hd_Min) simp_all
  ultimately show ?thesis by simp
qed

lemma classify_cases:
  assumes ne: "seen \<noteq> []"
  shows "(classify seen p = NEW_LOW \<longleftrightarrow> p < Min (set seen)) \<and>
         (classify seen p = DECREASED \<longleftrightarrow> Min (set seen) \<le> p \<and> p < last seen) \<and>
         (classify seen p = INCREASED \<longleftrightarrow> p > last seen) \<and>
         (classify seen p = UNCHANGED \<longleftrightarrow> p = last seen)"
proof -
  define m where "m = Min (set seen)"
  have le: "m \<le> last seen"
    unfolding m_def using ne by (intro Min_le) simp_all
  have c: "classify seen p =
      (if p < m then NEW_LOW else if p < last seen then DECREASED
       else if p > last seen then INCREASED else UNCHANGED)"
    using ne by (simp add: classify_def math_min_eq_Min m_def del: Min_gr_iff)
  show ?thesis
    unfolding m_def [symmetric] c using le by auto
qed

subsection \<open>The filter\<close>

text \<open>
  C4. The filter of lines 105-125 keeps exactly the listings, in their order, that have at
  least \<open>SEATS_TOGETHER\<close> seat labels, offer \<open>SEATS_TOGETHER\<close> among their lots, match a
  section pattern with their section code or a section-group pattern with their group
  name, and whose \<open>prefee + total + sales_tax\<close>, divided by 100, is at most
  \<open>MAX_ALL_IN_PRICE_PER_SEAT\<close>.
\<close>

theorem filter_stage_exact:
  "filter_stage ls =
     filter (\<lambda>l. SEATS_TOGETHER \<le> length (seats l) \<and>
                 of_nat SEATS_TOGETHER \<in> set (lots l) \<and>
                 ((\<exists>r \<in> set SECTIONS_REGEX. regex_test r (section_code l)) \<or>
                  (\<exists>r \<in> set SECTION_GROUP_NAMES. regex_test r (section_group l))) \<and>
                 (prefee (price l) + total_amount (price l) + sales_tax (price l)) / 100
                   \<le> MAX_ALL_IN_PRICE_PER_SEAT) ls"
  unfolding filter_stage_def
  by (rule filter_cong)
     (auto simp: qualifies_def list_ex_iff calculateTotalPrice_def)

theorem filter_stage_exact_witness:
  "filter_stage [listing_b, listing_a, listing_d, listing_c] = [listing_a, listing_c]"
  using filter_stage_exact [of "[listing_b, listing_a, listing_d, listing_c]"]
  by (simp add: listing_a_def listing_b_def listing_c_def listing_d_def SEATS_TOGETHER_def
      SECTIONS_REGEX_def SECTION_GROUP_NAMES_def MAX_ALL_IN_PRICE_PER_SEAT_def)

subsection \<open>The ranking\<close>

lemma after_try_AVAILABLE_SEATS:
  "AVAILABLE_SEATS (snd (after_try evs now1 now2 s)) = AVAILABLE_SEATS s"
  by (simp add: after_try_def notify_gate_def Let_def)

lemma check_AVAILABLE_SEATS:
  "AVAILABLE_SEATS (snd (check (Fetched (WellFormed ls)) now1 now2 s)) = available_seats ls"
  by (simp add: check_def after_try_AVAILABLE_SEATS)

lemma sorted_available_seats: "sorted (map calculateTotalPrice (available_seats ls))"
proof -
  let ?srt = "sort_key calculateTotalPrice (filter_stage ls)"
  have "sorted (map calculateTotalPrice ?srt)" by simp
  then have "sorted (take MAX_RETURN_LIST (map calculateTotalPrice ?srt))"
    by (rule sorted_wrt_take)
  then show ?thesis
    by (simp add: available_seats_def sort_by_compare_price take_map)
qed

lemma stable_sort_by:
  "filter (\<lambda>l. calculateTotalPrice l = k) (sort_by compare_price xs) =
   filter (\<lambda>l. calculateTotalPrice l = k) xs"
  by (simp add: sort_by_compare_price sort_key_stable)

lemma prefix_filter_take: "prefix (filter P (take n xs)) (filter P xs)"
  by (intro filter_mono_prefix take_is_prefix)

text \<open>
  C6. The sequence a tick stores in \<open>AVAILABLE_SEATS\<close> is the first \<open>MAX_RETURN_LIST\<close>
  entries of the sorted qualifying listings. It is sorted non-decreasing by total price and
  has at most \<open>MAX_RETURN_LIST\<close> entries. The sort is stable: for every price, the sorted
  listings of that price are the qualifying listings of that price in the order of the
  input, and those that survive the truncation are an initial segment of them.
\<close>

theorem available_seats_sorted_stable:
  "available_seats ls = take MAX_RETURN_LIST (sort_by compare_price (filter qualifies ls)) \<and>
   sorted (map calculateTotalPrice (available_seats ls)) \<and>
   (\<forall>k. filter (\<lambda>l. calculateTotalPrice l = k) (sort_by compare_price (filter qualifies ls)) =
        filter (\<lambda>l. qualifies l \<and> calculateTotalPrice l = k) ls) \<and>
   (\<forall>k. prefix (filter (\<lambda>l. calculateTotalPrice l = k) (available_seats ls))
               (filter (\<lambda>l. qualifies l \<and> calculateTotalPrice l = k) ls)) \<and>
   length (available_seats ls) \<le> MAX_RETURN_LIST \<and>
   AVAILABLE_SEATS (snd (check (Fetched (WellFormed ls)) now1 now2 s)) = available_seats ls"
proof -
  have st: "filter (\<lambda>l. calculateTotalPrice l = k) (sort_by compare_price (filter qualifies ls)) =
        filter (\<lambda>l. qualifies l \<and> calculateTotalPrice l = k) ls" for k
    by (simp add: stable_sort_by conj_commute)
  have pre: "prefix (filter (\<lambda>l. calculateTotalPrice l = k) (available_seats ls))
               (filter (\<lambda>l. qualifies l \<and> calculateTotalPrice l = k) ls)" for k
    unfolding available_seats_def filter_stage_def st [symmetric] by (rule prefix_filter_take)
  show ?thesis
    using st pre
    by (simp add: sorted_available_seats check_AVAILABLE_SEATS)
       (simp add: available_seats_def filter_stage_def)
qed

theorem available_seats_sorted_stable_witness:
  "available_seats [listing_a, listing_d, listing_e, listing_b, listing_c] =
     [listing_c, listing_a, listing_e] \<and>
   map calculateTotalPrice (available_seats [listing_a, listing_d, listing_e, listing_b, listing_c]) =
     [190, 250, 250]"
  using available_seats_sorted_stable
    [of "[listing_a, listing_d, listing_e, listing_b, listing_c]" 0 0 initial_state]
  by (simp add: available_seats_def filter_stage_def qualifies_def compare_price_def
      calculateTotalPrice_def listing_a_def listing_b_def listing_c_def listing_d_def
      listing_e_def SEATS_TOGETHER_def SECTIONS_REGEX_def SECTION_GROUP_NAMES_def
      MAX_ALL_IN_PRICE_PER_SEAT_def MAX_RETURN_LIST_def)

subsection \<open>A tick, case by case\<close>

lemma check_WellFormed_empty:
  assumes "filter_stage ls = []"
  shows "check (Fetched (WellFormed ls)) now1 now2 s =
     (Inr [NoSeatsLogged],
      s\<lparr>AVAILABLE_SEATS := [], STATUS_MESSAGE := ''NO_SEATS'', ERROR := False, ERROR_COUNT := 0\<rparr>)"
  using assms by (cases s) (simp add: check_def after_try_def available_seats_Nil_iff [symmetric])

lemma check_WellFormed_nonempty:
  assumes "filter_stage ls \<noteq> []"
  shows "check (Fetched (WellFormed ls)) now1 now2 s =
     (let lowest = calculateTotalPrice (hd (available_seats ls));
          s1 = s\<lparr>AVAILABLE_SEATS := available_seats ls, STATUS_MESSAGE := header, ERROR := False,
                 ERROR_COUNT := 0, pricesSeen := pricesSeen s @ [lowest]\<rparr>
      in case classify (pricesSeen s) lowest of
           NEW_LOW \<Rightarrow>
             notify_gate [] (map readout_line (available_seats ls)) now1 now2
               (s1\<lparr>STATUS_MESSAGE := header @ (if pricesSeen s = [] then [] else callout lowest)\<rparr>)
         | DECREASED \<Rightarrow> (Inr [PriceDecreased (fmtPrice lowest)], s1)
         | INCREASED \<Rightarrow> (Inr [PriceIncreased (fmtPrice lowest)], s1)
         | UNCHANGED \<Rightarrow> (Inr [PriceUnchanged (fmtPrice lowest)], s1))"
  using assms
  by (cases s) (simp add: check_def after_try_def available_seats_Nil_iff classify_def Let_def)

lemma foldl_lines:
  "foldl (\<lambda>msg line. msg @ newline @ line) m xs = m @ concat (map (\<lambda>line. newline @ line) xs)"
  by (induction xs arbitrary: m) simp_all

lemma notify_gate_result:
  "notify_gate [] readout now1 now2 s =
     (let m = STATUS_MESSAGE s @ concat (map (\<lambda>line. newline @ line) readout)
      in if now1 - LAST_TEXT_SENT_AT s < TEXT_MAX_FREQUENCY_MINS * 60 * 1000
         then (Inr [TextThrottled], s\<lparr>STATUS_MESSAGE := m\<rparr>)
         else (Inr [PushAlert m], s\<lparr>STATUS_MESSAGE := m, LAST_TEXT_SENT_AT := now2\<rparr>))"
  by (cases s) (simp add: notify_gate_def Let_def foldl_lines)

subsection \<open>The price history\<close>

lemma check_pricesSeen_WellFormed:
  "pricesSeen (snd (check (Fetched (WellFormed ls)) now1 now2 s)) =
     (if filter_stage ls = [] then pricesSeen s
      else pricesSeen s @ [Min (calculateTotalPrice ` set (filter_stage ls))])"
proof (cases "filter_stage ls = []")
  case True
  then show ?thesis by (simp add: check_WellFormed_empty)
next
  case False
  then show ?thesis
    by (simp add: check_WellFormed_nonempty notify_gate_result Let_def hd_available_seats
        split: trend.split)
qed

lemma check_pricesSeen_failed:
  "pricesSeen (snd (check FetchFailed now1 now2 s)) = pricesSeen s"
  "pricesSeen (snd (check (Fetched Malformed) now1 now2 s)) = pricesSeen s"
  "pricesSeen (snd (check (Fetched Raises) now1 now2 s)) = pricesSeen s"
  by (simp_all add: check_def after_try_def Let_def)

lemma step_pricesSeen:
  "pricesSeen (step t s) =
     (case fetched t of
        Fetched (WellFormed ls) \<Rightarrow>
          if filter_stage ls = [] then pricesSeen s
          else pricesSeen s @ [Min (calculateTotalPrice ` set (filter_stage ls))]
      | _ \<Rightarrow> pricesSeen s)"
  by (simp add: step_def check_pricesSeen_WellFormed check_pricesSeen_failed
      split: response.split document.split)

lemma step_pricesSeen_cases:
  "pricesSeen (step t s) = pricesSeen s \<and> \<not> has_qualifying (fetched t) \<or>
   (\<exists>p. pricesSeen (step t s) = pricesSeen s @ [p]) \<and> has_qualifying (fetched t)"
  by (cases "fetched t" rule: has_qualifying.cases) (simp_all add: step_pricesSeen)

lemma run_pricesSeen:
  "prefix (pricesSeen s) (pricesSeen (run ts s)) \<and>
   length (pricesSeen (run ts s)) =
     length (pricesSeen s) + length (filter (\<lambda>t. has_qualifying (fetched t)) ts)"
proof (induction ts arbitrary: s)
  case Nil
  show ?case by simp
next
  case (Cons t ts)
  from step_pricesSeen_cases [of t s]
  have "prefix (pricesSeen s) (pricesSeen (step t s)) \<and>
        length (pricesSeen (step t s)) =
          length (pricesSeen s) + (if has_qualifying (fetched t) then 1 else 0)"
    by auto
  with Cons.IH [of "step t s"] show ?case
    by (auto intro: prefix_order.trans)
qed

text \<open>
  C7. \<open>pricesSeen\<close> is append-only. Over any run the history at the start is an initial
  segment of the history at the end, and the history grows by exactly the number of ticks
  with at least one qualifying listing; from the initial state its length is that number.
  A tick without a qualifying listing (no listing passes the filter, the document fails the
  schema, the fetch or the processing fails) leaves the history as it is, and a tick with
  one appends one entry, the least total price among the qualifying listings.
\<close>

theorem pricesSeen_append_only:
  "prefix (pricesSeen s) (pricesSeen (run ts s)) \<and>
   length (pricesSeen (run ts s)) =
     length (pricesSeen s) + length (filter (\<lambda>t. has_qualifying (fetched t)) ts) \<and>
   length (pricesSeen (run ts initial_state)) =
     length (filter (\<lambda>t. has_qualifying (fetched t)) ts) \<and>
   (\<not> has_qualifying (fetched t) \<longrightarrow> pricesSeen (step t s) = pricesSeen s) \<and>
   (filter_stage ls \<noteq> [] \<longrightarrow>
      pricesSeen (snd (check (Fetched (WellFormed ls)) now1 now2 s)) =
        pricesSeen s @ [Min (calculateTotalPrice ` set (filter_stage ls))])"
proof -
  have "pricesSeen initial_state = []" by (simp add: initial_state_def)
  with run_pricesSeen [of initial_state ts]
  have "length (pricesSeen (run ts initial_state)) =
        length (filter (\<lambda>t. has_qualifying (fetched t)) ts)" by simp
  moreover have "\<not> has_qualifying (fetched t) \<longrightarrow> pricesSeen (step t s) = pricesSeen s"
    using step_pricesSeen_cases [of t s] by auto
  ultimately show ?thesis
    using run_pricesSeen [of s ts] by (simp add: check_pricesSeen_WellFormed)
qed

lemma filter_stage_samples:
  "filter_stage [listing_a] = [listing_a]"
  "filter_stage [listing_c] = [listing_c]"
  "filter_stage [listing_f] = [listing_f]"
  "filter_stage [listing_b, listing_d] = []"
  by (simp_all add: filter_stage_def qualifies_def calculateTotalPrice_def listing_a_def
      listing_b_def listing_c_def listing_d_def listing_f_def SEATS_TOGETHER_def
      SECTIONS_REGEX_def SECTION_GROUP_NAMES_def MAX_ALL_IN_PRICE_PER_SEAT_def)

lemma price_samples:
  "calculateTotalPrice listing_a = 250"
  "calculateTotalPrice listing_c = 190"
  "calculateTotalPrice listing_f = 150"
  by (simp_all add: calculateTotalPrice_def listing_a_def listing_c_def listing_f_def)

theorem pricesSeen_append_only_witness:
  "pricesSeen
     (run [tick_A, malformed_tick, tick_of FetchFailed 1700000300000,
           tick_of (Fetched (WellFormed [listing_b, listing_d])) 1700000600000, tick_B]
        initial_state) = [250, 190] \<and>
   filter (\<lambda>t. has_qualifying (fetched t))
     [tick_A, malformed_tick, tick_of FetchFailed 1700000300000,
      tick_of (Fetched (WellFormed [listing_b, listing_d])) 1700000600000, tick_B] =
     [tick_A, tick_B]"
  using pricesSeen_append_only
    [of initial_state
        "[tick_A, malformed_tick, tick_of FetchFailed 1700000300000,
          tick_of (Fetched (WellFormed [listing_b, listing_d])) 1700000600000, tick_B]"
        malformed_tick "[listing_a]" 1700000000000 1700000000000]
  by (simp add: step_pricesSeen tick_A_def tick_B_def malformed_tick_def tick_of_def
      filter_stage_samples price_samples initial_state_def)

subsection \<open>The trend\<close>

lemma reached_gate_notify_gate: "reached_gate (fst (notify_gate [] readout now1 now2 s))"
  by (simp add: notify_gate_result Let_def)

lemma check_trend_events:
  assumes "filter_stage ls \<noteq> []"
  shows "(reached_gate (fst (check (Fetched (WellFormed ls)) now1 now2 s))
           \<longleftrightarrow> classify (pricesSeen s) (lowest_price (available_seats ls)) = NEW_LOW) \<and>
         (classify (pricesSeen s) (lowest_price (available_seats ls)) = DECREASED \<longrightarrow>
            fst (check (Fetched (WellFormed ls)) now1 now2 s) =
              Inr [PriceDecreased (fmtPrice (lowest_price (available_seats ls)))]) \<and>
         (classify (pricesSeen s) (lowest_price (available_seats ls)) = INCREASED \<longrightarrow>
            fst (check (Fetched (WellFormed ls)) now1 now2 s) =
              Inr [PriceIncreased (fmtPrice (lowest_price (available_seats ls)))]) \<and>
         (classify (pricesSeen s) (lowest_price (available_seats ls)) = UNCHANGED \<longrightarrow>
            fst (check (Fetched (WellFormed ls)) now1 now2 s) =
              Inr [PriceUnchanged (fmtPrice (lowest_price (available_seats ls)))]) \<and>
         (classify (pricesSeen s) (lowest_price (available_seats ls)) \<noteq> NEW_LOW \<longrightarrow>
            LAST_TEXT_SENT_AT (snd (check (Fetched (WellFormed ls)) now1 now2 s)) =
              LAST_TEXT_SENT_AT s)"
  using assms
  by (simp add: check_WellFormed_nonempty Let_def reached_gate_notify_gate lowest_price_def
      split: trend.split)

text \<open>
  C5. A tick with a qualifying listing and a non-empty history: with the least and the last
  recorded price taken before the push of line 173, the trend is \<open>NEW_LOW\<close> iff the
  lowest price of the tick is below the least recorded price, \<open>DECREASED\<close> iff it is at
  least the least recorded price and below the last one, \<open>INCREASED\<close> iff it is above the
  last one, \<open>UNCHANGED\<close> iff it equals the last one. The tick appends the lowest price to
  the history. It gets to the throttle iff the trend is \<open>NEW_LOW\<close>; on the other three it
  logs the trend line, returns, and leaves \<open>LAST_TEXT_SENT_AT\<close> alone. After
  500, 480, 480 a price of 470 is \<open>NEW_LOW\<close>; after 500, 480 a price of 490 is
  \<open>INCREASED\<close>.
\<close>

theorem trend_classification:
  assumes "filter_stage ls \<noteq> []" and "pricesSeen s \<noteq> []"
  shows
    "(classify (pricesSeen s) (lowest_price (available_seats ls)) = NEW_LOW
        \<longleftrightarrow> lowest_price (available_seats ls) < Min (set (pricesSeen s))) \<and>
     (classify (pricesSeen s) (lowest_price (available_seats ls)) = DECREASED
        \<longleftrightarrow> Min (set (pricesSeen s)) \<le> lowest_price (available_seats ls) \<and>
            lowest_price (available_seats ls) < last (pricesSeen s)) \<and>
     (classify (pricesSeen s) (lowest_price (available_seats ls)) = INCREASED
        \<longleftrightarrow> lowest_price (available_seats ls) > last (pricesSeen s)) \<and>
     (classify (pricesSeen s) (lowest_price (available_seats ls)) = UNCHANGED
        \<longleftrightarrow> lowest_price (available_seats ls) = last (pricesSeen s)) \<and>
     pricesSeen (snd (check (Fetched (WellFormed ls)) now1 now2 s)) =
        pricesSeen s @ [lowest_price (available_seats ls)] \<and>
     (reached_gate (fst (check (Fetched (WellFormed ls)) now1 now2 s))
        \<longleftrightarrow> classify (pricesSeen s) (lowest_price (available_seats ls)) = NEW_LOW) \<and>
     (classify (pricesSeen s) (lowest_price (available_seats ls)) = DECREASED \<longrightarrow>
        fst (check (Fetched (WellFormed ls)) now1 now2 s) =
          Inr [PriceDecreased (fmtPrice (lowest_price (available_seats ls)))]) \<and>
     (classify (pricesSeen s) (lowest_price (available_seats ls)) = INCREASED \<longrightarrow>
        fst (check (Fetched (WellFormed ls)) now1 now2 s) =
          Inr [PriceIncreased (fmtPrice (lowest_price (available_seats ls)))]) \<and>
     (classify (pricesSeen s) (lowest_price (available_seats ls)) = UNCHANGED \<longrightarrow>
        fst (check (Fetched (WellFormed ls)) now1 now2 s) =
          Inr [PriceUnchanged (fmtPrice (lowest_price (available_seats ls)))]) \<and>
     (classify (pricesSeen s) (lowest_price (available_seats ls)) \<noteq> NEW_LOW \<longrightarrow>
        LAST_TEXT_SENT_AT (snd (check (Fetched (WellFormed ls)) now1 now2 s)) =
          LAST_TEXT_SENT_AT s) \<and>
     classify [500, 480, 480] 470 = NEW_LOW \<and>
     classify [500, 480] 490 = INCREASED"
proof -
  let ?p = "lowest_price (available_seats ls)"
  have hist: "pricesSeen (snd (check (Fetched (WellFormed ls)) now1 now2 s)) = pricesSeen s @ [?p]"
    using assms(1) by (simp add: check_pricesSeen_WellFormed hd_available_seats lowest_price_def)
  have ex: "classify [500, 480, 480] 470 = NEW_LOW" "classify [500, 480] 490 = INCREASED"
    by (simp_all add: classify_def)
  from classify_cases [OF assms(2), of ?p] hist check_trend_events [OF assms(1), of now1 now2 s] ex
  show ?thesis by blast
qed

lemma fmtPrice_samples:
  "fmtPrice 250 = ''$250''" "fmtPrice 190 = ''$190''" "fmtPrice 150 = ''$150''"
  "fmtPrice 500 = ''$500''" "fmtPrice 380 = ''$380''" "fmtPrice 350 = ''$350''"
  by code_simp+

lemma available_seats_samples:
  "available_seats [listing_a] = [listing_a]"
  "available_seats [listing_c] = [listing_c]"
  "available_seats [listing_f] = [listing_f]"
  by (simp_all add: available_seats_def filter_stage_samples MAX_RETURN_LIST_def)

lemma pricesSeen_samples:
  "pricesSeen state_A = [250]" "pricesSeen state_B = [250, 190]"
  by (simp_all add: state_A_def state_B_def step_pricesSeen tick_A_def tick_B_def tick_of_def
      filter_stage_samples price_samples initial_state_def)

theorem trend_classification_witness:
  "classify (pricesSeen state_A) (lowest_price (available_seats [listing_c])) = NEW_LOW \<and>
   reached_gate (fst (check (Fetched (WellFormed [listing_c])) 1700000840000 1700000840000 state_A)) \<and>
   classify (pricesSeen state_B) (lowest_price (available_seats [listing_a])) = INCREASED \<and>
   fst (check (Fetched (WellFormed [listing_a])) 1700001800000 1700001800000 state_B) =
     Inr [PriceIncreased ''$250'']"
  using trend_classification [of "[listing_c]" state_A 1700000840000 1700000840000]
        trend_classification [of "[listing_a]" state_B 1700001800000 1700001800000]
  by (simp add: filter_stage_samples available_seats_samples pricesSeen_samples lowest_price_def
      price_samples fmtPrice_samples)

subsection \<open>Ticks that get to the throttle\<close>

lemma check_NEW_LOW:
  assumes "filter_stage ls \<noteq> []"
    and "classify (pricesSeen s) (lowest_price (available_seats ls)) = NEW_LOW"
  shows "check (Fetched (WellFormed ls)) now1 now2 s =
     (let m = header @
              (if pricesSeen s = [] then [] else callout (lowest_price (available_seats ls))) @
              concat (map (\<lambda>l. newline @ readout_line l) (available_seats ls));
          s1 = s\<lparr>AVAILABLE_SEATS := available_seats ls, ERROR := False, ERROR_COUNT := 0,
                 pricesSeen := pricesSeen s @ [lowest_price (available_seats ls)],
                 STATUS_MESSAGE := m\<rparr>
      in if now1 - LAST_TEXT_SENT_AT s < TEXT_MAX_FREQUENCY_MINS * 60 * 1000
         then (Inr [TextThrottled], s1)
         else (Inr [PushAlert m], s1\<lparr>LAST_TEXT_SENT_AT := now2\<rparr>))"
  using assms
  by (cases s)
     (simp add: check_WellFormed_nonempty notify_gate_result Let_def lowest_price_def comp_def)

text \<open>
  C9. The first tick with a qualifying listing, the history being empty before it, records
  the lowest qualifying price as the only entry of the history, has trend \<open>NEW_LOW\<close>, and
  gets to the throttle of line 202: it ends with the throttle's log line or with the alert.
\<close>

theorem first_tick_new_low:
  assumes "pricesSeen s = []" and "filter_stage ls \<noteq> []"
  shows "pricesSeen (snd (check (Fetched (WellFormed ls)) now1 now2 s)) =
           [lowest_price (available_seats ls)] \<and>
         lowest_price (available_seats ls) = Min (calculateTotalPrice ` set (filter_stage ls)) \<and>
         classify (pricesSeen s) (lowest_price (available_seats ls)) = NEW_LOW \<and>
         reached_gate (fst (check (Fetched (WellFormed ls)) now1 now2 s)) \<and>
         (fst (check (Fetched (WellFormed ls)) now1 now2 s) = Inr [TextThrottled] \<or>
          fst (check (Fetched (WellFormed ls)) now1 now2 s) =
            Inr [PushAlert (STATUS_MESSAGE (snd (check (Fetched (WellFormed ls)) now1 now2 s)))])"
proof -
  have c: "classify (pricesSeen s) (lowest_price (available_seats ls)) = NEW_LOW"
    using assms(1) by (simp add: classify_def)
  have m: "lowest_price (available_seats ls) = Min (calculateTotalPrice ` set (filter_stage ls))"
    using assms(2) by (simp add: lowest_price_def hd_available_seats)
  show ?thesis
    using c m assms(1) by (simp add: check_NEW_LOW [OF assms(2) c] Let_def)
qed

theorem first_tick_new_low_witness:
  "pricesSeen state_A = [250] \<and>
   reached_gate (fst (check (Fetched (WellFormed [listing_a])) 1700000000000 1700000000000 initial_state)) \<and>
   classify (pricesSeen initial_state) (lowest_price (available_seats [listing_a])) = NEW_LOW"
  using first_tick_new_low [of initial_state "[listing_a]" 1700000000000 1700000000000]
  by (simp add: state_A_def step_def tick_A_def tick_of_def filter_stage_samples
      available_seats_samples lowest_price_def price_samples initial_state_def)

text \<open>
  C8, amended. On a tick with a qualifying listing and trend \<open>NEW_LOW\<close>: if the first clock
  reading is less than \<open>TEXT_MAX_FREQUENCY_MINS\<close> minutes after \<open>LAST_TEXT_SENT_AT\<close>, the
  tick logs the throttle line, sends nothing and leaves \<open>LAST_TEXT_SENT_AT\<close> alone;
  otherwise it sends the status message and sets \<open>LAST_TEXT_SENT_AT\<close> to the second clock
  reading. Hence, when such a tick has sent its alert, a following \<open>NEW_LOW\<close> tick whose
  clock reads less than \<open>TEXT_MAX_FREQUENCY_MINS\<close> minutes after that is throttled and
  leaves \<open>LAST_TEXT_SENT_AT\<close> alone.
\<close>

theorem notification_throttle:
  assumes "filter_stage ls \<noteq> []"
    and "classify (pricesSeen s) (lowest_price (available_seats ls)) = NEW_LOW"
  shows
    "(now1 - LAST_TEXT_SENT_AT s < TEXT_MAX_FREQUENCY_MINS * 60 * 1000 \<longrightarrow>
        fst (check (Fetched (WellFormed ls)) now1 now2 s) = Inr [TextThrottled] \<and>
        LAST_TEXT_SENT_AT (snd (check (Fetched (WellFormed ls)) now1 now2 s)) =
          LAST_TEXT_SENT_AT s) \<and>
     (\<not> now1 - LAST_TEXT_SENT_AT s < TEXT_MAX_FREQUENCY_MINS * 60 * 1000 \<longrightarrow>
        fst (check (Fetched (WellFormed ls)) now1 now2 s) =
          Inr [PushAlert (STATUS_MESSAGE (snd (check (Fetched (WellFormed ls)) now1 now2 s)))] \<and>
        LAST_TEXT_SENT_AT (snd (check (Fetched (WellFormed ls)) now1 now2 s)) = now2) \<and>
     (\<not> now1 - LAST_TEXT_SENT_AT s < TEXT_MAX_FREQUENCY_MINS * 60 * 1000 \<and>
      filter_stage ls' \<noteq> [] \<and>
      classify (pricesSeen (snd (check (Fetched (WellFormed ls)) now1 now2 s)))
        (lowest_price (available_seats ls')) = NEW_LOW \<and>
      now1' - now2 < TEXT_MAX_FREQUENCY_MINS * 60 * 1000 \<longrightarrow>
        fst (check (Fetched (WellFormed ls')) now1' now2'
               (snd (check (Fetched (WellFormed ls)) now1 now2 s))) = Inr [TextThrottled] \<and>
        LAST_TEXT_SENT_AT
          (snd (check (Fetched (WellFormed ls')) now1' now2'
                 (snd (check (Fetched (WellFormed ls)) now1 now2 s)))) = now2)"
proof -
  let ?s1 = "snd (check (Fetched (WellFormed ls)) now1 now2 s)"
  have one: "(now1 - LAST_TEXT_SENT_AT s < TEXT_MAX_FREQUENCY_MINS * 60 * 1000 \<longrightarrow>
        fst (check (Fetched (WellFormed ls)) now1 now2 s) = Inr [TextThrottled] \<and>
        LAST_TEXT_SENT_AT ?s1 = LAST_TEXT_SENT_AT s) \<and>
     (\<not> now1 - LAST_TEXT_SENT_AT s < TEXT_MAX_FREQUENCY_MINS * 60 * 1000 \<longrightarrow>
        fst (check (Fetched (WellFormed ls)) now1 now2 s) = Inr [PushAlert (STATUS_MESSAGE ?s1)] \<and>
        LAST_TEXT_SENT_AT ?s1 = now2)"
    by (simp add: check_NEW_LOW [OF assms] Let_def)
  have two: "fst (check (Fetched (WellFormed ls')) now1' now2' ?s1) = Inr [TextThrottled] \<and>
        LAST_TEXT_SENT_AT (snd (check (Fetched (WellFormed ls')) now1' now2' ?s1)) = now2"
    if sent: "\<not> now1 - LAST_TEXT_SENT_AT s < TEXT_MAX_FREQUENCY_MINS * 60 * 1000"
      and q: "filter_stage ls' \<noteq> []"
      and c: "classify (pricesSeen ?s1) (lowest_price (available_seats ls')) = NEW_LOW"
      and near: "now1' - now2 < TEXT_MAX_FREQUENCY_MINS * 60 * 1000"
  proof -
    from one sent have "LAST_TEXT_SENT_AT ?s1 = now2" by blast
    with near show ?thesis
      by (simp add: check_NEW_LOW [OF q c] Let_def)
  qed
  from one two show ?thesis by blast
qed

lemma LAST_TEXT_SENT_AT_samples:
  "LAST_TEXT_SENT_AT state_A = 1700000000000"
  "LAST_TEXT_SENT_AT state_B = 1700000000000"
proof -
  have cA: "classify (pricesSeen initial_state) (lowest_price (available_seats [listing_a])) = NEW_LOW"
    by (simp add: classify_def initial_state_def)
  show a: "LAST_TEXT_SENT_AT state_A = 1700000000000"
    by (simp add: state_A_def step_def tick_A_def tick_of_def check_NEW_LOW [OF _ cA]
        filter_stage_samples Let_def)
       (simp_all add: TEXT_MAX_FREQUENCY_MINS_def initial_state_def)
  have cB: "classify (pricesSeen state_A) (lowest_price (available_seats [listing_c])) = NEW_LOW"
    by (simp add: classify_def pricesSeen_samples available_seats_samples lowest_price_def
        price_samples)
  show "LAST_TEXT_SENT_AT state_B = 1700000000000"
    by (simp add: state_B_def step_def tick_B_def tick_of_def check_NEW_LOW [OF _ cB]
        filter_stage_samples Let_def TEXT_MAX_FREQUENCY_MINS_def a)
qed

lemma sample_steps:
  "snd (check (Fetched (WellFormed [listing_a])) 1700000000000 1700000000000 initial_state) =
     state_A"
  "snd (check (Fetched (WellFormed [listing_c])) 1700000840000 1700000840000 state_A) = state_B"
  by (simp_all add: state_A_def state_B_def step_def tick_A_def tick_B_def tick_of_def)

lemma sample_trends:
  "classify (pricesSeen initial_state) (lowest_price (available_seats [listing_a])) = NEW_LOW"
  "classify (pricesSeen state_A) (lowest_price (available_seats [listing_c])) = NEW_LOW"
  "classify (pricesSeen state_B) (lowest_price (available_seats [listing_f])) = NEW_LOW"
  by (simp_all add: classify_def pricesSeen_samples available_seats_samples lowest_price_def
      price_samples initial_state_def)

theorem notification_throttle_witness:
  "fst (check (Fetched (WellFormed [listing_a])) 1700000000000 1700000000000 initial_state) =
     Inr [PushAlert (STATUS_MESSAGE state_A)] \<and>
   LAST_TEXT_SENT_AT state_A = 1700000000000 \<and>
   fst (check (Fetched (WellFormed [listing_c])) 1700000840000 1700000840000 state_A) =
     Inr [TextThrottled] \<and>
   LAST_TEXT_SENT_AT state_B = 1700000000000"
proof -
  have qa: "filter_stage [listing_a] \<noteq> []" and qc: "filter_stage [listing_c] \<noteq> []"
    by (simp_all add: filter_stage_samples)
  have t1: "\<not> 1700000000000 - LAST_TEXT_SENT_AT initial_state
              < TEXT_MAX_FREQUENCY_MINS * 60 * 1000"
    by (simp add: initial_state_def TEXT_MAX_FREQUENCY_MINS_def)
  have t2: "(1700000840000::int) - 1700000000000 < TEXT_MAX_FREQUENCY_MINS * 60 * 1000"
    by (simp add: TEXT_MAX_FREQUENCY_MINS_def)
  note inst = notification_throttle
    [where ls = "[listing_a]" and s = initial_state and ?now1.0 = 1700000000000
       and ?now2.0 = 1700000000000 and ls' = "[listing_c]" and now1' = 1700000840000
       and now2' = 1700000840000, OF qa sample_trends(1), unfolded sample_steps]
  from inst t1 t2 qc sample_trends(2) show ?thesis by blast
qed

text \<open>
  The second sentence of C8 as it stands fails. In the run \<open>tick_A\<close>, \<open>tick_B\<close>, \<open>tick_C\<close>
  the alert of \<open>tick_A\<close> is sent, \<open>tick_B\<close> is \<open>NEW_LOW\<close> fourteen minutes later and is
  throttled, and \<open>tick_C\<close> is \<open>NEW_LOW\<close> two minutes after \<open>tick_B\<close> and sends its alert,
  sixteen minutes after the alert of \<open>tick_A\<close>.
\<close>

theorem consecutive_new_low_counterexample:
  "classify (pricesSeen state_A) (lowest_price (available_seats [listing_c])) = NEW_LOW \<and>
   fst (check (fetched tick_B) (clock1 tick_B) (clock2 tick_B) state_A) = Inr [TextThrottled] \<and>
   classify (pricesSeen state_B) (lowest_price (available_seats [listing_f])) = NEW_LOW \<and>
   clock1 tick_C - clock1 tick_B < TEXT_MAX_FREQUENCY_MINS * 60 * 1000 \<and>
   fst (check (fetched tick_C) (clock1 tick_C) (clock2 tick_C) state_B) =
     Inr [PushAlert (STATUS_MESSAGE (step tick_C state_B))] \<and>
   LAST_TEXT_SENT_AT state_B = 1700000000000 \<and>
   LAST_TEXT_SENT_AT (step tick_C state_B) = 1700000960000"
proof -
  note cB = sample_trends(2) and cC = sample_trends(3)
  have B: "fst (check (fetched tick_B) (clock1 tick_B) (clock2 tick_B) state_A) = Inr [TextThrottled]"
    by (simp add: tick_B_def tick_of_def check_NEW_LOW [OF _ cB] filter_stage_samples Let_def
        LAST_TEXT_SENT_AT_samples TEXT_MAX_FREQUENCY_MINS_def)
  have C: "fst (check (fetched tick_C) (clock1 tick_C) (clock2 tick_C) state_B) =
             Inr [PushAlert (STATUS_MESSAGE (step tick_C state_B))] \<and>
           LAST_TEXT_SENT_AT (step tick_C state_B) = 1700000960000"
    by (simp add: step_def tick_C_def tick_of_def check_NEW_LOW [OF _ cC] filter_stage_samples
        Let_def LAST_TEXT_SENT_AT_samples TEXT_MAX_FREQUENCY_MINS_def)
  have near: "clock1 tick_C - clock1 tick_B < TEXT_MAX_FREQUENCY_MINS * 60 * 1000"
    by (simp add: tick_B_def tick_C_def tick_of_def TEXT_MAX_FREQUENCY_MINS_def)
  from cB B cC near C LAST_TEXT_SENT_AT_samples(2) show ?thesis by blast
qed

subsection \<open>The status message\<close>

lemma header_text:
  "header =
     basketball @ '' Seats available for Lakers vs. Suns!'' @ newline @
     ''(checking Gametime for 2 seats together at $350 each in sections similar to /^Premier/, /^Loge/, /^Baseline/)''"
  by (simp add: header_def EVENT_NAME_def PLATFORM_NAME_def SECTION_GROUP_NAMES_def
      fmtPrice_samples) code_simp

lemma readout_samples:
  "readout_line listing_a = ''- Sec PR12 Row 4, $250 each ($500 total)''"
  "readout_line listing_c = ''- Sec 101 Row 9, $190 each ($380 total)''"
  by (simp_all add: readout_line_def price_samples SEATS_TOGETHER_def fmtPrice_samples)
     (simp_all add: listing_a_def listing_c_def)

text \<open>
  C10, amended. After a tick with qualifying listings and trend \<open>NEW_LOW\<close> the status
  message is the header, which names the event, the platform, the seat count, the price cap
  and the section-group patterns; then, unless the history was empty before the tick, the
  callout with the new lowest price; then one line per listing of \<open>AVAILABLE_SEATS\<close> with
  its section, row, price per seat and price for \<open>SEATS_TOGETHER\<close> seats. The accessor
  returns this message.
\<close>

theorem new_low_status_message:
  assumes "filter_stage ls \<noteq> []"
    and "classify (pricesSeen s) (lowest_price (available_seats ls)) = NEW_LOW"
  shows
    "STATUS_MESSAGE (snd (check (Fetched (WellFormed ls)) now1 now2 s)) =
       header @
       (if pricesSeen s = [] then [] else callout (lowest_price (available_seats ls))) @
       concat (map (\<lambda>l. newline @ readout_line l) (available_seats ls)) \<and>
     getStatusMessage (snd (check (Fetched (WellFormed ls)) now1 now2 s)) =
       STATUS_MESSAGE (snd (check (Fetched (WellFormed ls)) now1 now2 s)) \<and>
     available_seats ls \<noteq> [] \<and>
     header =
       basketball @ '' Seats available for Lakers vs. Suns!'' @ newline @
       ''(checking Gametime for 2 seats together at $350 each in sections similar to /^Premier/, /^Loge/, /^Baseline/)'' \<and>
     callout p =
       newline @ newline @ star @ '' New lowest price on Gametime: '' @ fmtPrice p @ newline \<and>
     readout_line l =
       ''- Sec '' @ section_code l @ '' Row '' @ row l @ '', '' @
       fmtPrice (calculateTotalPrice l) @ '' each ('' @
       fmtPrice (calculateTotalPrice l * 2) @ '' total)''"
proof -
  have "available_seats ls \<noteq> []"
    using assms(1) by (simp add: available_seats_Nil_iff)
  moreover have "callout p =
       newline @ newline @ star @ '' New lowest price on Gametime: '' @ fmtPrice p @ newline"
    by (simp add: callout_def PLATFORM_NAME_def)
  moreover have "readout_line l =
       ''- Sec '' @ section_code l @ '' Row '' @ row l @ '', '' @
       fmtPrice (calculateTotalPrice l) @ '' each ('' @
       fmtPrice (calculateTotalPrice l * 2) @ '' total)''"
    by (simp add: readout_line_def SEATS_TOGETHER_def Let_def)
  ultimately show ?thesis
    using header_text
    by (simp add: check_NEW_LOW [OF assms] Let_def getStatusMessage_def)
qed

theorem new_low_status_message_witness:
  "STATUS_MESSAGE state_B =
     header @ newline @ newline @ star @ '' New lowest price on Gametime: $190'' @ newline @
     newline @ ''- Sec 101 Row 9, $190 each ($380 total)'' \<and>
   getStatusMessage state_B = STATUS_MESSAGE state_B"
proof -
  have qc: "filter_stage [listing_c] \<noteq> []"
    by (simp add: filter_stage_samples)
  note inst = new_low_status_message
    [where ls = "[listing_c]" and s = state_A and ?now1.0 = 1700000840000
       and ?now2.0 = 1700000840000, OF qc sample_trends(2), unfolded sample_steps]
  then show ?thesis
    by (simp add: pricesSeen_samples available_seats_samples lowest_price_def price_samples
        callout_def PLATFORM_NAME_def fmtPrice_samples readout_samples)
qed

text \<open>
  C10 as it stands fails on the first tick with a qualifying listing: its trend is
  \<open>NEW_LOW\<close>, and its message is the header followed by the listing line, without the
  callout.
\<close>

theorem first_tick_message_counterexample:
  "filter_stage [listing_a] = [listing_a] \<and>
   classify (pricesSeen initial_state) (lowest_price (available_seats [listing_a])) = NEW_LOW \<and>
   fst (check (Fetched (WellFormed [listing_a])) 1700000000000 1700000000000 initial_state) =
     Inr [PushAlert (STATUS_MESSAGE state_A)] \<and>
   STATUS_MESSAGE state_A =
     basketball @ '' Seats available for Lakers vs. Suns!'' @ newline @
     ''(checking Gametime for 2 seats together at $350 each in sections similar to /^Premier/, /^Loge/, /^Baseline/)'' @
     newline @ ''- Sec PR12 Row 4, $250 each ($500 total)'' \<and>
   \<not> sublist ''New lowest price'' (STATUS_MESSAGE state_A)"
proof -
  have qa: "filter_stage [listing_a] \<noteq> []"
    by (simp add: filter_stage_samples)
  have t1: "\<not> 1700000000000 - LAST_TEXT_SENT_AT initial_state
              < TEXT_MAX_FREQUENCY_MINS * 60 * 1000"
    by (simp add: initial_state_def TEXT_MAX_FREQUENCY_MINS_def)
  have "fst (check (Fetched (WellFormed [listing_a])) 1700000000000 1700000000000 initial_state) =
      Inr [PushAlert (STATUS_MESSAGE
        (snd (check (Fetched (WellFormed [listing_a])) 1700000000000 1700000000000 initial_state)))]"
    using t1 by (simp add: check_NEW_LOW [OF qa sample_trends(1)] Let_def)
  then have r: "fst (check (Fetched (WellFormed [listing_a])) 1700000000000 1700000000000
      initial_state) = Inr [PushAlert (STATUS_MESSAGE state_A)]"
    by (simp only: sample_steps)
  have "STATUS_MESSAGE
      (snd (check (Fetched (WellFormed [listing_a])) 1700000000000 1700000000000 initial_state)) =
      header @ newline @ readout_line listing_a"
    by (simp add: check_NEW_LOW [OF qa sample_trends(1)] Let_def available_seats_samples)
       (simp_all add: initial_state_def)
  then have m: "STATUS_MESSAGE state_A = header @ newline @ readout_line listing_a"
    by (simp only: sample_steps)
  have n: "\<not> sublist ''New lowest price''
      (basketball @ '' Seats available for Lakers vs. Suns!'' @ newline @
     ''(checking Gametime for 2 seats together at $350 each in sections similar to /^Premier/, /^Loge/, /^Baseline/)'' @
     newline @ ''- Sec PR12 Row 4, $250 each ($500 total)'')"
    by code_simp
  from r m n show ?thesis
    by (simp add: filter_stage_samples sample_trends header_text readout_samples)
qed

subsection \<open>Failed ticks\<close>

lemma check_Malformed:
  "check (Fetched Malformed) now1 now2 s =
     (Inr [ParseErrorLogged],
      s\<lparr>AVAILABLE_SEATS := [], STATUS_MESSAGE := ''NO_SEATS'', ERROR := False\<rparr>)"
  by (simp add: check_def)

lemma check_FetchFailed:
  "check FetchFailed now1 now2 s =
     (Inl TransportError,
      s\<lparr>AVAILABLE_SEATS := [], STATUS_MESSAGE := ''NO_SEATS'', ERROR := False\<rparr>)"
  by (simp add: check_def)



text \<open>
  C1. A document that fails the schema: \<open>check\<close> logs and returns at line 100, before
  the counter is touched. \<open>ERROR_COUNT\<close> is what it was, not one more.
\<close>

theorem malformed_tick_not_counted:
  "check (Fetched Malformed) now1 now2 s =
     (Inr [ParseErrorLogged],
      s\<lparr>AVAILABLE_SEATS := [], STATUS_MESSAGE := ''NO_SEATS'', ERROR := False\<rparr>) \<and>
   ERROR_COUNT (snd (check (Fetched Malformed) now1 now2 s)) = ERROR_COUNT s \<and>
   ERROR_COUNT (run [malformed_tick, malformed_tick, malformed_tick, malformed_tick] initial_state) = 0"
  by (simp add: check_Malformed step_def malformed_tick_def tick_of_def initial_state_def)

text \<open>
  C3. A fetch that rejects: the promise of \<open>check\<close> is rejected with the transport error,
  after the resets of lines 88-90, and \<open>ERROR_COUNT\<close> is what it was.
\<close>

theorem fetch_failure_propagates:
  "check FetchFailed now1 now2 s =
     (Inl TransportError,
      s\<lparr>AVAILABLE_SEATS := [], STATUS_MESSAGE := ''NO_SEATS'', ERROR := False\<rparr>) \<and>
   ERROR_COUNT (snd (check FetchFailed now1 now2 s)) = ERROR_COUNT s"
  by (simp add: check_FetchFailed)




end
